theory Spec2Isabelle
  imports Main "HOL-Library.Sublist" "HOL-Library.Product_Lexorder"
begin

section \<open>The bootstrap installer (install.py)\<close>

text \<open>
  The installer is a straight-line sequence of effects on the host: it prints status
  lines, runs subprocesses, talks to the network and changes the filesystem. The model
  makes every one of these explicit.
  \<^item> The filesystem is a map from absolute paths to nodes; the installer's own
    filesystem calls (\<open>exists\<close>, \<open>mkdir\<close>, \<open>shutil.copy\<close>, \<open>shutil.rmtree\<close>,
    \<open>rename\<close>) are functions on it.
  \<^item> What the host answers (interpreter version, outcome and effect of each
    subprocess, the download, the probe) is a record \<open>env\<close> of parameters; every
    theorem holds for all of them unless it says otherwise.
  \<^item> Every \<open>print\<close> and every external call is appended to a trace.
  \<^item> A Python exception is the value \<open>Inl (Raised e)\<close>, \<open>sys.exit(n)\<close> is
    \<open>Inl (SystemExit n)\<close>; a \<open>try\<close>/\<open>except\<close> is a case distinction on them.
  Only exceptions below Python's \<open>Exception\<close> are modelled; asynchronous interrupts
  of the user are outside the model. The model of \<open>main\<close> starts after
  \<open>parser.parse_args()\<close>: the parsed arguments are its input.
\<close>

subsection \<open>Paths and the filesystem\<close>

type_synonym path = "string list"
  \<comment> \<open>an absolute, resolved path: its components from the root, which is \<open>[]\<close>\<close>

definition parent :: "path \<Rightarrow> path" where
  "parent p = butlast p"
  \<comment> \<open>\<open>Path.parent\<close>; the root is its own parent\<close>

definition child :: "path \<Rightarrow> string \<Rightarrow> path" where
  "child p n = p @ [n]"
  \<comment> \<open>the operator \<open>/\<close> of pathlib with a single name\<close>

datatype node = Dir | File string

type_synonym fs = "path \<Rightarrow> node option"

definition path_exists :: "fs \<Rightarrow> path \<Rightarrow> bool" where
  "path_exists f p = (f p \<noteq> None)"

definition is_dir :: "fs \<Rightarrow> path \<Rightarrow> bool" where
  "is_dir f p = (f p = Some Dir)"

subsection \<open>Exceptions, messages, trace\<close>

datatype exn =
    CalledProcessError
  | TimeoutExpired
  | FileNotFoundError
  | FileExistsError
  | NotADirectoryError
  | IsADirectoryError
  | PermissionError
  | URLError
  | BadZipFile
  | UnicodeDecodeError

fun is_OSError :: "exn \<Rightarrow> bool" where
  "is_OSError FileNotFoundError = True"
| "is_OSError FileExistsError = True"
| "is_OSError NotADirectoryError = True"
| "is_OSError IsADirectoryError = True"
| "is_OSError PermissionError = True"
| "is_OSError URLError = True"
| "is_OSError _ = False"

datatype stop =
    SystemExit nat   \<comment> \<open>\<open>sys.exit(n)\<close>\<close>
  | Raised exn       \<comment> \<open>an exception on its way up\<close>

text \<open>One constructor for each \<open>print\<close> of the source, with the values it interpolates.\<close>

datatype message =
    Banner                      \<comment> \<open>\<open>print_banner\<close>\<close>
  | PythonTooOld nat nat        \<comment> \<open>\<open>[ERROR] Python 3.10+ required. You have ..\<close>\<close>
  | PythonOK nat nat nat        \<comment> \<open>\<open>[OK] Python ..\<close>\<close>
  | InstallingTo path           \<comment> \<open>\<open>[INFO] Installing to: ..\<close>\<close>
  | AlreadyInstalled            \<comment> \<open>\<open>[OK] Claude already installed, updating...\<close>\<close>
  | Cloning                     \<comment> \<open>\<open>[...] Cloning ..\<close>\<close>
  | RepoCloned                  \<comment> \<open>\<open>[OK] Repository cloned\<close>\<close>
  | CloneFailed exn             \<comment> \<open>\<open>[ERROR] Git clone failed: ..\<close>\<close>
  | FallingBack                 \<comment> \<open>\<open>[INFO] Falling back to zip download...\<close>\<close>
  | GitNotFound                 \<comment> \<open>\<open>[INFO] Git not found, using zip download...\<close>\<close>
  | Downloading                 \<comment> \<open>\<open>[...] Downloading ..\<close>\<close>
  | Extracting                  \<comment> \<open>\<open>[...] Extracting...\<close>\<close>
  | Downloaded                  \<comment> \<open>\<open>[OK] Downloaded and extracted\<close>\<close>
  | DownloadFailed exn          \<comment> \<open>\<open>[ERROR] Download failed: ..\<close>\<close>
  | DirsCreated                 \<comment> \<open>\<open>[OK] Directories created\<close>\<close>
  | ConfigCreated               \<comment> \<open>\<open>[OK] Config created from example\<close>\<close>
  | ConfigExists                \<comment> \<open>\<open>[OK] Config already exists\<close>\<close>
  | NoRequirements              \<comment> \<open>\<open>[WARN] No requirements.txt found\<close>\<close>
  | InstallingDeps              \<comment> \<open>\<open>[...] Installing dependencies...\<close>\<close>
  | DepsInstalled               \<comment> \<open>\<open>[OK] Dependencies installed\<close>\<close>
  | PipFailed exn               \<comment> \<open>\<open>[ERROR] pip install failed: ..\<close>\<close>
  | OllamaRunning               \<comment> \<open>\<open>[OK] Ollama is running\<close>\<close>
  | OllamaNotDetected           \<comment> \<open>\<open>[INFO] Ollama not detected ..\<close>\<close>
  | OllamaHint                  \<comment> \<open>\<open>       Install from: https://ollama.ai\<close>\<close>
  | Testing                     \<comment> \<open>\<open>[...] Testing installation...\<close>\<close>
  | TestPassed                  \<comment> \<open>\<open>[OK] Installation test passed\<close>\<close>
  | TestOutput string           \<comment> \<open>\<open>[WARN] Test output: ..\<close>\<close>
  | TestFailed exn              \<comment> \<open>\<open>[WARN] Test failed: ..\<close>\<close>
  | StartingDaemon              \<comment> \<open>\<open>[...] Starting daemon...\<close>\<close>
  | DaemonNotFound              \<comment> \<open>\<open>[ERROR] daemon.py not found\<close>\<close>
  | DaemonStarted               \<comment> \<open>\<open>[OK] Daemon started\<close>\<close>
  | Summary path                \<comment> \<open>the closing box, INSTALLATION COMPLETE\<close>

text \<open>The calls that leave the interpreter.\<close>

datatype action =
    GitVersion                  \<comment> \<open>\<open>git --version\<close>\<close>
  | GitPull path                \<comment> \<open>\<open>git pull\<close> with the given working directory\<close>
  | GitClone path               \<comment> \<open>\<open>git clone REPO_URL target\<close>\<close>
  | UrlopenZip                  \<comment> \<open>\<open>urlopen(REPO_ZIP, timeout=30)\<close> and \<open>read\<close>\<close>
  | ExtractAll path             \<comment> \<open>\<open>ZipFile(..).extractall(dir)\<close>\<close>
  | Mkdir path                  \<comment> \<open>\<open>os.mkdir\<close>\<close>
  | CopyFile path path          \<comment> \<open>\<open>shutil.copy\<close>\<close>
  | Rmtree path                 \<comment> \<open>\<open>shutil.rmtree\<close>\<close>
  | Rename path path            \<comment> \<open>\<open>Path.rename\<close>\<close>
  | PipInstall path             \<comment> \<open>\<open>python -m pip install -r requirements\<close>\<close>
  | OllamaProbe                 \<comment> \<open>\<open>urlopen("http://localhost:11434/api/tags", timeout=2)\<close>\<close>
  | RunMe path                  \<comment> \<open>\<open>python target/me.py\<close>, timeout 10\<close>
  | PopenWindow path            \<comment> \<open>\<open>Popen(["start", "cmd", "/k", ..], shell=True)\<close>\<close>
  | PopenBackground path        \<comment> \<open>\<open>Popen([python, daemon], start_new_session=True)\<close>\<close>

datatype event = Print message | Do action

record state =
  files :: fs
  trace :: "event list"

subsection \<open>The host\<close>

datatype run_result =
    Exited int string   \<comment> \<open>the process ran: return code and standard output\<close>
  | Failed exn          \<comment> \<open>\<open>subprocess.run\<close> raised: no such program, timeout, ..\<close>

record env =
  version_info :: "nat \<times> nat \<times> nat"            \<comment> \<open>\<open>sys.version_info\<close>: major, minor, micro\<close>
  platform_win32 :: bool                         \<comment> \<open>\<open>sys.platform == 'win32'\<close>\<close>
  denied :: "path \<Rightarrow> bool"                        \<comment> \<open>paths the system refuses to write\<close>
  git_version :: run_result
  git_pull :: "path \<Rightarrow> fs \<Rightarrow> run_result \<times> fs"
  git_clone :: "path \<Rightarrow> fs \<Rightarrow> run_result \<times> fs"
  read_zip :: "exn + string"                     \<comment> \<open>the archive's bytes, or the error of the download\<close>
  extractall :: "string \<Rightarrow> path \<Rightarrow> fs \<Rightarrow> exn option \<times> fs"
  pip_install :: "path \<Rightarrow> fs \<Rightarrow> run_result \<times> fs"
  ollama_tags :: "exn + nat"                     \<comment> \<open>the HTTP status of the probe, or its error\<close>
  run_me :: "path \<Rightarrow> fs \<Rightarrow> run_result \<times> fs"
  popen :: "action \<Rightarrow> exn option"                 \<comment> \<open>the error of spawning, if any\<close>

record args =
  dir :: path          \<comment> \<open>\<open>Path(args.dir).resolve()\<close>\<close>
  start :: bool        \<comment> \<open>\<open>--start\<close>\<close>
  no_deps :: bool      \<comment> \<open>\<open>--no-deps\<close>\<close>

subsection \<open>Steps\<close>

type_synonym 'a step = "state \<Rightarrow> (stop + 'a) \<times> state"

definition say :: "message \<Rightarrow> state \<Rightarrow> state" where
  "say m s = s\<lparr>trace := trace s @ [Print m]\<rparr>"

definition called :: "action \<Rightarrow> state \<Rightarrow> state" where
  "called a s = s\<lparr>trace := trace s @ [Do a]\<rparr>"

definition then_do :: "'a step \<Rightarrow> ('a \<Rightarrow> 'b step) \<Rightarrow> 'b step" where
  "then_do m f s = (case m s of (Inl x, s') \<Rightarrow> (Inl x, s') | (Inr v, s') \<Rightarrow> f v s')"

subsection \<open>Filesystem calls\<close>

text \<open>
  \<open>os.mkdir(p)\<close>: fails when the system refuses, when \<open>p\<close> is there already, when
  the parent is missing or is a file.
\<close>

definition os_mkdir :: "env \<Rightarrow> path \<Rightarrow> unit step" where
  "os_mkdir env p s =
     (let s' = called (Mkdir p) s in
      if denied env p then (Inl (Raised PermissionError), s')
      else if files s p \<noteq> None then (Inl (Raised FileExistsError), s')
      else (case files s (parent p) of
              None \<Rightarrow> (Inl (Raised FileNotFoundError), s')
            | Some (File c) \<Rightarrow> (Inl (Raised NotADirectoryError), s')
            | Some Dir \<Rightarrow> (Inr (), s'\<lparr>files := (files s)(p \<mapsto> Dir)\<rparr>)))"

text \<open>
  \<open>Path.mkdir(parents, exist_ok)\<close> as pathlib writes it:
  \<^verbatim>\<open>
  try:
      os.mkdir(self, mode)
  except FileNotFoundError:
      if not parents or self.parent == self:
          raise
      self.parent.mkdir(parents=True, exist_ok=True)
      self.mkdir(mode, parents=False, exist_ok=exist_ok)
  except OSError:
      if not exist_ok or not self.is_dir():
          raise
  \<close>
\<close>

function pathlib_mkdir :: "env \<Rightarrow> bool \<Rightarrow> bool \<Rightarrow> path \<Rightarrow> unit step" where
  "pathlib_mkdir env parents exist_ok p s =
     (case os_mkdir env p s of
        (Inr u, s') \<Rightarrow> (Inr u, s')
      | (Inl (SystemExit n), s') \<Rightarrow> (Inl (SystemExit n), s')
      | (Inl (Raised e), s') \<Rightarrow>
          if e = FileNotFoundError then
            (if \<not> parents \<or> parent p = p then (Inl (Raised e), s')
             else (case pathlib_mkdir env True True (parent p) s' of
                     (Inl x, s'') \<Rightarrow> (Inl x, s'')
                   | (Inr u, s'') \<Rightarrow> pathlib_mkdir env False exist_ok p s''))
          else if is_OSError e then
            (if \<not> exist_ok \<or> \<not> is_dir (files s') p then (Inl (Raised e), s')
             else (Inr (), s'))
          else (Inl (Raised e), s'))"
  by pat_completeness auto
termination
  by (relation "measure (\<lambda>(env, parents, exist_ok, p, s). 2 * length p + (if parents then 1 else 0))")
     (auto simp: parent_def butlast_conv_take)

declare pathlib_mkdir.simps [simp del]

text \<open>
  \<open>shutil.copy(src, dst)\<close>: reads the file \<open>src\<close> and writes its content to \<open>dst\<close>,
  or into \<open>dst\<close> under the name of \<open>src\<close> when \<open>dst\<close> is a directory.
\<close>

definition shutil_copy :: "env \<Rightarrow> path \<Rightarrow> path \<Rightarrow> unit step" where
  "shutil_copy env src dst s =
     (let s' = called (CopyFile src dst) s;
          to = (if is_dir (files s) dst \<and> src \<noteq> [] then child dst (last src) else dst)
      in case files s src of
           None \<Rightarrow> (Inl (Raised FileNotFoundError), s')
         | Some Dir \<Rightarrow> (Inl (Raised IsADirectoryError), s')
         | Some (File c) \<Rightarrow>
             if denied env to then (Inl (Raised PermissionError), s')
             else if is_dir (files s) to then (Inl (Raised IsADirectoryError), s')
             else (case files s (parent to) of
                     None \<Rightarrow> (Inl (Raised FileNotFoundError), s')
                   | Some (File c') \<Rightarrow> (Inl (Raised NotADirectoryError), s')
                   | Some Dir \<Rightarrow> (Inr (), s'\<lparr>files := (files s)(to \<mapsto> File c)\<rparr>)))"

text \<open>\<open>shutil.rmtree(p)\<close>: removes the directory \<open>p\<close> and everything below it.\<close>

definition shutil_rmtree :: "env \<Rightarrow> path \<Rightarrow> unit step" where
  "shutil_rmtree env p s =
     (let s' = called (Rmtree p) s
      in case files s p of
           None \<Rightarrow> (Inl (Raised FileNotFoundError), s')
         | Some (File c) \<Rightarrow> (Inl (Raised NotADirectoryError), s')
         | Some Dir \<Rightarrow>
             if denied env p then (Inl (Raised PermissionError), s')
             else (Inr (), s'\<lparr>files := (\<lambda>q. if prefix p q then None else files s q)\<rparr>))"

text \<open>
  \<open>src.rename(dst)\<close>: moves \<open>src\<close> with everything below it to \<open>dst\<close>. What happens
  when \<open>dst\<close> exists depends on the platform; the installer renames only onto a path
  that does not exist, and the model raises otherwise.
\<close>

definition path_rename :: "env \<Rightarrow> path \<Rightarrow> path \<Rightarrow> unit step" where
  "path_rename env src dst s =
     (let s' = called (Rename src dst) s
      in if files s src = None then (Inl (Raised FileNotFoundError), s')
         else if denied env src \<or> denied env dst then (Inl (Raised PermissionError), s')
         else if files s dst \<noteq> None then (Inl (Raised FileExistsError), s')
         else (Inr (), s'\<lparr>files :=
                 (\<lambda>q. if prefix dst q then files s (src @ drop (length dst) q)
                      else if prefix src q then None
                      else files s q)\<rparr>))"

subsection \<open>Subprocesses\<close>

text \<open>
  \<open>subprocess.run(cmd, check=..)\<close>: the host decides how the process ends and what it
  does to the filesystem; with \<open>check=True\<close> a return code other than zero raises
  \<open>CalledProcessError\<close>.
\<close>

definition subprocess_run :: "action \<Rightarrow> (fs \<Rightarrow> run_result \<times> fs) \<Rightarrow> bool \<Rightarrow> (int \<times> string) step" where
  "subprocess_run a proc check s =
     (let (r, f') = proc (files s);
          s' = called a (s\<lparr>files := f'\<rparr>)
      in case r of
           Failed e \<Rightarrow> (Inl (Raised e), s')
         | Exited rc out \<Rightarrow>
             if check \<and> rc \<noteq> 0 then (Inl (Raised CalledProcessError), s')
             else (Inr (rc, out), s'))"

subsection \<open>The installer's functions\<close>

definition print_banner :: "state \<Rightarrow> state" where
  "print_banner s = say Banner s"

definition check_python :: "env \<Rightarrow> bool step" where
  "check_python env s =
     (case version_info env of (major, minor, micro) \<Rightarrow>
        if major < 3 \<or> (major = 3 \<and> minor < 10)
        then (Inr False, say (PythonTooOld major minor) s)
        else (Inr True, say (PythonOK major minor micro) s))"

definition check_git :: "env \<Rightarrow> bool step" where
  "check_git env s =
     (case subprocess_run GitVersion (\<lambda>f. (git_version env, f)) True s of
        (Inr r, s') \<Rightarrow> (Inr True, s')
      | (Inl (Raised e), s') \<Rightarrow>
          if e = CalledProcessError \<or> e = FileNotFoundError then (Inr False, s')
          else (Inl (Raised e), s')
      | (Inl (SystemExit n), s') \<Rightarrow> (Inl (SystemExit n), s'))"

definition clone_repo :: "env \<Rightarrow> path \<Rightarrow> bool step" where
  "clone_repo env target_dir s =
     (case subprocess_run (GitClone target_dir) (git_clone env target_dir) True (say Cloning s) of
        (Inr r, s') \<Rightarrow> (Inr True, say RepoCloned s')
      | (Inl (Raised e), s') \<Rightarrow>
          if e = CalledProcessError then (Inr False, say (CloneFailed e) s')
          else (Inl (Raised e), s')
      | (Inl (SystemExit n), s') \<Rightarrow> (Inl (SystemExit n), s'))"

text \<open>The two \<open>with\<close> blocks of \<open>download_zip\<close>.\<close>

definition urlopen_zip :: "env \<Rightarrow> string step" where
  "urlopen_zip env s =
     (case read_zip env of
        Inl e \<Rightarrow> (Inl (Raised e), called UrlopenZip s)
      | Inr zip_data \<Rightarrow> (Inr zip_data, called UrlopenZip s))"

definition zip_extractall :: "env \<Rightarrow> string \<Rightarrow> path \<Rightarrow> unit step" where
  "zip_extractall env zip_data d s =
     (let (r, f') = extractall env zip_data d (files s);
          s' = called (ExtractAll d) (s\<lparr>files := f'\<rparr>)
      in case r of Some e \<Rightarrow> (Inl (Raised e), s') | None \<Rightarrow> (Inr (), s'))"

text \<open>The body of the \<open>try\<close> of \<open>download_zip\<close>, then the function with its handler.\<close>

definition download_zip_try :: "env \<Rightarrow> path \<Rightarrow> bool step" where
  "download_zip_try env target_dir =
     then_do (urlopen_zip env) (\<lambda>zip_data s1.
     then_do (zip_extractall env zip_data (parent target_dir)) (\<lambda>u s2.
       let extracted = child (parent target_dir) ''claude-agent-main'' in
       then_do
         (if path_exists (files s2) extracted then
            then_do
              (if path_exists (files s2) target_dir then shutil_rmtree env target_dir
               else (\<lambda>s. (Inr (), s)))
              (\<lambda>u. path_rename env extracted target_dir)
          else (\<lambda>s. (Inr (), s)))
         (\<lambda>u s3. (Inr True, say Downloaded s3))
         s2)
       (say Extracting s1))"

definition download_zip :: "env \<Rightarrow> path \<Rightarrow> bool step" where
  "download_zip env target_dir s =
     (case download_zip_try env target_dir (say Downloading s) of
        (Inl (Raised e), s') \<Rightarrow> (Inr False, say (DownloadFailed e) s')
      | (Inl (SystemExit n), s') \<Rightarrow> (Inl (SystemExit n), s')
      | (Inr r, s') \<Rightarrow> (Inr r, s'))"

definition required_dirs :: "path \<Rightarrow> path list" where
  "required_dirs target_dir =
     [child target_dir ''vault'',
      child (child target_dir ''vault'') ''Daemon Thoughts'',
      child target_dir ''outbox'',
      child target_dir ''memory'',
      child target_dir ''snapshots'']"

fun mkdir_each :: "env \<Rightarrow> path list \<Rightarrow> unit step" where
  "mkdir_each env [] s = (Inr (), s)"
| "mkdir_each env (d # ds) s =
     (case pathlib_mkdir env True True d s of
        (Inl x, s') \<Rightarrow> (Inl x, s')
      | (Inr u, s') \<Rightarrow> mkdir_each env ds s')"

definition setup_directories :: "env \<Rightarrow> path \<Rightarrow> unit step" where
  "setup_directories env target_dir s =
     (case mkdir_each env (required_dirs target_dir) s of
        (Inl x, s') \<Rightarrow> (Inl x, s')
      | (Inr u, s') \<Rightarrow> (Inr (), say DirsCreated s'))"

definition create_config :: "env \<Rightarrow> path \<Rightarrow> unit step" where
  "create_config env target_dir s =
     (let config = child target_dir ''config.py'';
          example = child target_dir ''config.example.py''
      in if \<not> path_exists (files s) config \<and> path_exists (files s) example then
           (case shutil_copy env example config s of
              (Inl x, s') \<Rightarrow> (Inl x, s')
            | (Inr u, s') \<Rightarrow> (Inr (), say ConfigCreated s'))
         else if path_exists (files s) config then (Inr (), say ConfigExists s)
         else (Inr (), s))"

definition install_dependencies :: "env \<Rightarrow> path \<Rightarrow> bool step" where
  "install_dependencies env target_dir s =
     (let requirements = child target_dir ''requirements.txt''
      in if \<not> path_exists (files s) requirements then (Inr True, say NoRequirements s)
         else
           (case subprocess_run (PipInstall requirements) (pip_install env requirements) True
                   (say InstallingDeps s) of
              (Inr r, s') \<Rightarrow> (Inr True, say DepsInstalled s')
            | (Inl (Raised e), s') \<Rightarrow>
                if e = CalledProcessError then (Inr False, say (PipFailed e) s')
                else (Inl (Raised e), s')
            | (Inl (SystemExit n), s') \<Rightarrow> (Inl (SystemExit n), s')))"

definition check_ollama :: "env \<Rightarrow> bool step" where
  "check_ollama env s =
     (let s' = called OllamaProbe s
      in case ollama_tags env of
           Inr status \<Rightarrow>
             if status = 200 then (Inr True, say OllamaRunning s')
             else (Inr False, say OllamaHint (say OllamaNotDetected s'))
         | Inl e \<Rightarrow> (Inr False, say OllamaHint (say OllamaNotDetected s')))"

definition test_install :: "env \<Rightarrow> path \<Rightarrow> bool step" where
  "test_install env target_dir s =
     (case subprocess_run (RunMe (child target_dir ''me.py'')) (run_me env target_dir) False
             (say Testing s) of
        (Inr (returncode, stdout), s') \<Rightarrow>
          if sublist ''SYSTEM TEST'' stdout \<or> returncode = 0
          then (Inr True, say TestPassed s')
          else (Inr True, say (TestOutput (take 200 stdout)) s')
      | (Inl (Raised e), s') \<Rightarrow> (Inr False, say (TestFailed e) s')
      | (Inl (SystemExit n), s') \<Rightarrow> (Inl (SystemExit n), s'))"

definition spawn :: "env \<Rightarrow> action \<Rightarrow> unit step" where
  "spawn env a s =
     (case popen env a of
        Some e \<Rightarrow> (Inl (Raised e), called a s)
      | None \<Rightarrow> (Inr (), called a s))"

definition start_daemon :: "env \<Rightarrow> path \<Rightarrow> bool step" where
  "start_daemon env target_dir s =
     (let s1 = say StartingDaemon s;
          daemon = child target_dir ''daemon.py''
      in if \<not> path_exists (files s1) daemon then (Inr False, say DaemonNotFound s1)
         else
           (case (if platform_win32 env then spawn env (PopenWindow daemon) s1
                  else spawn env (PopenBackground daemon) s1) of
              (Inl x, s2) \<Rightarrow> (Inl x, s2)
            | (Inr u, s2) \<Rightarrow> (Inr True, say DaemonStarted s2)))"

text \<open>
  The test of line 222, \<open>target_dir.exists() and (target_dir / "me.py").exists()\<close>: the
  installation marker is there.
\<close>

definition installed :: "fs \<Rightarrow> path \<Rightarrow> bool" where
  "installed f target_dir =
     (path_exists f target_dir \<and> path_exists f (child target_dir ''me.py''))"

text \<open>
  The block \<open># Get the code\<close> of \<open>main\<close> (lines 221 to 235); \<open>sys.exit(1)\<close> is the
  result \<open>Inl (SystemExit 1)\<close>.
\<close>

definition get_the_code :: "env \<Rightarrow> path \<Rightarrow> unit step" where
  "get_the_code env target_dir s =
     (if installed (files s) target_dir then
        then_do (check_git env) (\<lambda>git s1.
          if git \<and> path_exists (files s1) (child target_dir ''.git'') then
            then_do (subprocess_run (GitPull target_dir) (git_pull env target_dir) False)
              (\<lambda>r s2. (Inr (), s2)) s1
          else (Inr (), s1))
          (say AlreadyInstalled s)
      else
        then_do (check_git env) (\<lambda>git s1.
          if git then
            then_do (clone_repo env target_dir) (\<lambda>cloned s2.
              if \<not> cloned then
                then_do (download_zip env target_dir) (\<lambda>downloaded s3.
                  if \<not> downloaded then (Inl (SystemExit 1), s3) else (Inr (), s3))
                  (say FallingBack s2)
              else (Inr (), s2)) s1
          else
            then_do (download_zip env target_dir) (\<lambda>downloaded s3.
              if \<not> downloaded then (Inl (SystemExit 1), s3) else (Inr (), s3))
              (say GitNotFound s1))
          s)"

text \<open>The rest of \<open>main\<close> after the code is there (lines 237 to 276).\<close>

definition set_up :: "env \<Rightarrow> args \<Rightarrow> path \<Rightarrow> unit step" where
  "set_up env a target_dir =
     then_do (setup_directories env target_dir) (\<lambda>u.
     then_do (create_config env target_dir) (\<lambda>u.
     then_do (if \<not> no_deps a then install_dependencies env target_dir else (\<lambda>s. (Inr True, s))) (\<lambda>b.
     then_do (check_ollama env) (\<lambda>b.
     then_do (test_install env target_dir) (\<lambda>b.
     then_do (if start a then start_daemon env target_dir else (\<lambda>s. (Inr True, s))) (\<lambda>b s.
       (Inr (), say (Summary target_dir) s)))))))"

definition main :: "env \<Rightarrow> args \<Rightarrow> unit step" where
  "main env a s =
     then_do (check_python env) (\<lambda>ok s1.
       if \<not> ok then (Inl (SystemExit 1), s1)
       else
         let target_dir = dir a in
         then_do (get_the_code env target_dir) (\<lambda>u. set_up env a target_dir)
           (say (InstallingTo target_dir) s1))
       (print_banner s)"

text \<open>
  The exit status of the process: the argument of \<open>sys.exit\<close>, 1 when an exception
  reaches the top of the interpreter, 0 when \<open>main\<close> returns.
\<close>

fun exit_status :: "stop + unit \<Rightarrow> nat" where
  "exit_status (Inl (SystemExit n)) = n"
| "exit_status (Inl (Raised e)) = 1"
| "exit_status (Inr u) = 0"

section \<open>Notions used in the statements\<close>

text \<open>
  \<open>check_git\<close> returns \<open>False\<close> exactly when \<open>git --version\<close> ends with a return code
  other than zero or cannot be found, and \<open>True\<close> exactly when it returns zero;
  \<open>clone_repo\<close> returns \<open>False\<close> exactly when \<open>git clone\<close> ends with
  \<open>CalledProcessError\<close>.
\<close>

definition git_missing :: "env \<Rightarrow> bool" where
  "git_missing env =
     (case git_version env of
        Exited rc out \<Rightarrow> rc \<noteq> 0
      | Failed e \<Rightarrow> e = CalledProcessError \<or> e = FileNotFoundError)"

definition git_available :: "env \<Rightarrow> bool" where
  "git_available env = (case git_version env of Exited rc out \<Rightarrow> rc = 0 | Failed e \<Rightarrow> False)"

definition clone_fails :: "env \<Rightarrow> path \<Rightarrow> fs \<Rightarrow> bool" where
  "clone_fails env target_dir f =
     (case fst (git_clone env target_dir f) of
        Exited rc out \<Rightarrow> rc \<noteq> 0
      | Failed e \<Rightarrow> e = CalledProcessError)"

text \<open>
  The calls of the installer that sit outside every handler able to catch the exception
  \<open>e\<close>: \<open>git --version\<close> (its handler names two classes), \<open>git pull\<close> (no handler),
  \<open>git clone\<close> and \<open>pip install\<close> (the handler names \<open>CalledProcessError\<close>),
  \<open>os.mkdir\<close>, \<open>shutil.copy\<close> and \<open>Popen\<close> (no handler). The download, the
  extraction, \<open>rmtree\<close>, \<open>rename\<close>, the probe and the smoke test sit inside
  \<open>except Exception\<close> or a bare \<open>except\<close>.
\<close>

fun unhandled :: "path \<Rightarrow> exn \<Rightarrow> action \<Rightarrow> bool" where
  "unhandled t e GitVersion = (e \<noteq> CalledProcessError \<and> e \<noteq> FileNotFoundError)"
| "unhandled t e (GitPull p) = (p = t)"
| "unhandled t e (GitClone p) = (p = t \<and> e \<noteq> CalledProcessError)"
| "unhandled t e (Mkdir p) = True"
| "unhandled t e (CopyFile p q) = (p = child t ''config.example.py'' \<and> q = child t ''config.py'')"
| "unhandled t e (PipInstall p) = (p = child t ''requirements.txt'' \<and> e \<noteq> CalledProcessError)"
| "unhandled t e (PopenWindow p) = (p = child t ''daemon.py'')"
| "unhandled t e (PopenBackground p) = (p = child t ''daemon.py'')"
| "unhandled t e _ = False"

definition popen_last :: "path \<Rightarrow> state \<Rightarrow> bool" where
  "popen_last t s =
     (last (trace s) = Do (PopenWindow (child t ''daemon.py'')) \<or>
      last (trace s) = Do (PopenBackground (child t ''daemon.py'')))"



text \<open>
  The step of the pipeline an event belongs to: 1 environment check, 2 source
  acquisition, 3 directories, 4 configuration, 5 dependencies, 6 probe, 7 smoke test,
  8 daemon, 9 summary. A trace is \<open>up_to\<close> step \<open>k\<close> when it holds no event of a later
  step.
\<close>

fun phase_of :: "event \<Rightarrow> nat" where
  "phase_of (Print Banner) = 1"
| "phase_of (Print (PythonTooOld a b)) = 1"
| "phase_of (Print (PythonOK a b c)) = 1"
| "phase_of (Print (InstallingTo p)) = 1"
| "phase_of (Print DirsCreated) = 3"
| "phase_of (Do (Mkdir p)) = 3"
| "phase_of (Print ConfigCreated) = 4"
| "phase_of (Print ConfigExists) = 4"
| "phase_of (Do (CopyFile p q)) = 4"
| "phase_of (Print NoRequirements) = 5"
| "phase_of (Print InstallingDeps) = 5"
| "phase_of (Print DepsInstalled) = 5"
| "phase_of (Print (PipFailed e)) = 5"
| "phase_of (Do (PipInstall p)) = 5"
| "phase_of (Print OllamaRunning) = 6"
| "phase_of (Print OllamaNotDetected) = 6"
| "phase_of (Print OllamaHint) = 6"
| "phase_of (Do OllamaProbe) = 6"
| "phase_of (Print Testing) = 7"
| "phase_of (Print TestPassed) = 7"
| "phase_of (Print (TestOutput out)) = 7"
| "phase_of (Print (TestFailed e)) = 7"
| "phase_of (Do (RunMe p)) = 7"
| "phase_of (Print StartingDaemon) = 8"
| "phase_of (Print DaemonNotFound) = 8"
| "phase_of (Print DaemonStarted) = 8"
| "phase_of (Do (PopenWindow p)) = 8"
| "phase_of (Do (PopenBackground p)) = 8"
| "phase_of (Print (Summary p)) = 9"
| "phase_of _ = 2"

definition up_to :: "nat \<Rightarrow> state \<Rightarrow> bool" where
  "up_to k s = (\<forall>ev \<in> set (trace s). phase_of ev \<le> k)"

text \<open>\<open>yields x Q\<close>: the result and the state of the run \<open>x\<close> satisfy \<open>Q\<close>.\<close>

definition yields :: "(stop + 'a) \<times> state \<Rightarrow> (stop + 'a \<Rightarrow> state \<Rightarrow> bool) \<Rightarrow> bool" where
  "yields x Q = Q (fst x) (snd x)"

subsection \<open>Hosts and filesystems of the examples\<close>

definition claude_agent :: path where
  "claude_agent = [''home'', ''claude-agent'']"

definition home :: fs where
  "home = [[] \<mapsto> Dir, [''home''] \<mapsto> Dir]"

text \<open>What a clone of the repository puts into the target directory.\<close>

definition checkout :: "path \<Rightarrow> fs \<Rightarrow> fs" where
  "checkout t f =
     f(t \<mapsto> Dir,
       child t ''.git'' \<mapsto> Dir,
       child t ''me.py'' \<mapsto> File ''print(1)'',
       child t ''config.example.py'' \<mapsto> File ''VOICE = 1'')"

text \<open>An installed copy with the five subdirectories and no configuration file yet.\<close>

definition ready :: fs where
  "ready =
     (checkout claude_agent home)
       (child claude_agent ''vault'' \<mapsto> Dir,
        child (child claude_agent ''vault'') ''Daemon Thoughts'' \<mapsto> Dir,
        child claude_agent ''outbox'' \<mapsto> Dir,
        child claude_agent ''memory'' \<mapsto> Dir,
        child claude_agent ''snapshots'' \<mapsto> Dir)"

text \<open>
  A host with Python 3.11 and git, where the clone works, the archive cannot be
  downloaded, nothing listens on the probe's port and the smoke test passes.
\<close>

definition host :: env where
  "host =
     \<lparr>version_info = (3, 11, 4),
      platform_win32 = False,
      denied = (\<lambda>p. False),
      git_version = Exited 0 ''git version 2.43.0'',
      git_pull = (\<lambda>t f. (Exited 0 ''Already up to date.'', f)),
      git_clone = (\<lambda>t f. (Exited 0 [], checkout t f)),
      read_zip = Inl URLError,
      extractall = (\<lambda>z d f. (None, f)),
      pip_install = (\<lambda>r f. (Exited 0 [], f)),
      ollama_tags = Inl URLError,
      run_me = (\<lambda>t f. (Exited 0 ''SYSTEM TEST'', f)),
      popen = (\<lambda>a. None)\<rparr>"

definition plain_args :: args where
  "plain_args = \<lparr>dir = claude_agent, start = False, no_deps = False\<rparr>"

section \<open>Properties of the steps\<close>

lemma files_say [simp]: "files (say m s) = files s"
  by (simp add: say_def)

lemma trace_say [simp]: "trace (say m s) = trace s @ [Print m]"
  by (simp add: say_def)

lemma files_called [simp]: "files (called a s) = files s"
  by (simp add: called_def)

lemma trace_called [simp]: "trace (called a s) = trace s @ [Do a]"
  by (simp add: called_def)

lemma parent_child [simp]: "parent (child p n) = p"
  by (simp add: parent_def child_def)

lemma child_neq [simp]: "child p n \<noteq> p"
  by (simp add: child_def)

lemma then_doE:
  assumes "then_do m f s = (r, s'')"
  obtains (stopped) x where "m s = (Inl x, s'')" and "r = Inl x"
        | (went_on) v s' where "m s = (Inr v, s')" and "f v s' = (r, s'')"
  using assms by (auto simp: then_do_def split: prod.splits sum.splits)

lemma up_to_say [simp]: "up_to k (say m s) = (up_to k s \<and> phase_of (Print m) \<le> k)"
  by (auto simp: up_to_def)

lemma up_to_called [simp]: "up_to k (called a s) = (up_to k s \<and> phase_of (Do a) \<le> k)"
  by (auto simp: up_to_def)

lemma up_to_files [simp]: "up_to k (s\<lparr>files := f\<rparr>) = up_to k s"
  by (simp add: up_to_def)

subsection \<open>Subprocesses and git\<close>

lemma check_git_eq:
  "check_git env s =
     ((case git_version env of
         Exited rc out \<Rightarrow> if rc \<noteq> 0 then Inr False else Inr True
       | Failed e \<Rightarrow> if e = CalledProcessError \<or> e = FileNotFoundError then Inr False
                     else Inl (Raised e)),
      called GitVersion s)"
  by (auto simp: check_git_def subprocess_run_def Let_def called_def split: run_result.splits)


subsection \<open>Creating directories\<close>

lemma os_mkdir_cases:
  assumes "os_mkdir env p s = (r, s')"
  shows "trace s' = trace s @ [Do (Mkdir p)]"
    and "r \<noteq> Inl (SystemExit n)"
    and "r = Inl x \<Longrightarrow> files s' = files s"
    and "r = Inr u \<Longrightarrow> files s' = (files s)(p \<mapsto> Dir) \<and> files s p = None"
  using assms by (auto simp: os_mkdir_def Let_def split: option.splits node.splits if_splits)

lemma os_mkdir_exn:
  "os_mkdir env p s = (Inl (Raised e), s') \<Longrightarrow> is_OSError e"
  by (auto simp: os_mkdir_def Let_def split: option.splits node.splits if_splits)

lemma pathlib_mkdir_rule:
  assumes run: "pathlib_mkdir env parents exist_ok p s = (r, s')"
    and step: "\<And>q s1 r1 s2. os_mkdir env q s1 = (r1, s2) \<Longrightarrow> R s1 s2"
    and trans: "\<And>a b c. R a b \<Longrightarrow> R b c \<Longrightarrow> R a c"
  shows "R s s'"
  using run step
proof (induction env parents exist_ok p s arbitrary: r s' rule: pathlib_mkdir.induct)
  case (1 env parents exist_ok p s)
  note step' = "1.prems"(2)
  obtain r0 s0 where o: "os_mkdir env p s = (r0, s0)"
    by fastforce
  have first: "R s s0"
    using o by (rule step')
  show ?case
  proof (cases "r0 = Inl (Raised FileNotFoundError) \<and> parents \<and> parent p \<noteq> p")
    case False
    then have "s' = s0"
      using "1.prems"(1) o
      by (subst (asm) pathlib_mkdir.simps) (auto split: sum.splits stop.splits if_splits)
    then show ?thesis
      using first by simp
  next
    case True
    obtain r1 s1 where up: "pathlib_mkdir env True True (parent p) s0 = (r1, s1)"
      by fastforce
    have second: "R s0 s1"
      using "1.IH"(1) [OF o [symmetric] _ _ _ _ up step'] True by simp
    show ?thesis
    proof (cases r1)
      case (Inl x)
      then have "s' = s1"
        using "1.prems"(1) o True up
        by (subst (asm) pathlib_mkdir.simps) simp
      then show ?thesis
        using first second trans by blast
    next
      case (Inr u)
      then have again: "pathlib_mkdir env False exist_ok p s1 = (r, s')"
        using "1.prems"(1) o True up
        by (subst (asm) pathlib_mkdir.simps) simp
      have "R s1 s'"
        using "1.IH"(2) [OF o [symmetric] _ _ _ _ up [symmetric] Inr again step'] True by simp
      then show ?thesis
        using first second trans by blast
    qed
  qed
qed

lemma pathlib_mkdir_result:
  assumes run: "pathlib_mkdir env parents exist_ok p s = (r, s')"
  shows "(r = Inr () \<and> is_dir (files s') p) \<or>
         (\<exists>e q. r = Inl (Raised e) \<and> is_OSError e \<and> last (trace s') = Do (Mkdir q))"
  using run
proof (induction env parents exist_ok p s arbitrary: r s' rule: pathlib_mkdir.induct)
  case (1 env parents exist_ok p s)
  obtain r0 s0 where o: "os_mkdir env p s = (r0, s0)"
    by fastforce
  note facts = os_mkdir_cases [OF o]
  show ?case
  proof (cases "r0 = Inl (Raised FileNotFoundError) \<and> parents \<and> parent p \<noteq> p")
    case False
    then show ?thesis
      using "1.prems" o facts os_mkdir_exn [of env p s _ s0]
      by (subst (asm) pathlib_mkdir.simps)
         (auto simp: is_dir_def split: sum.splits stop.splits if_splits)
  next
    case True
    obtain r1 s1 where up: "pathlib_mkdir env True True (parent p) s0 = (r1, s1)"
      by fastforce
    have second: "(r1 = Inr () \<and> is_dir (files s1) (parent p)) \<or>
         (\<exists>e q. r1 = Inl (Raised e) \<and> is_OSError e \<and> last (trace s1) = Do (Mkdir q))"
      using "1.IH"(1) [OF o [symmetric] _ _ _ _ up] True by simp
    show ?thesis
    proof (cases r1)
      case (Inl x)
      then have "s' = s1" "r = r1"
        using "1.prems" o True up
        by (subst (asm) pathlib_mkdir.simps; simp)+
      then show ?thesis
        using second Inl by auto
    next
      case (Inr u)
      then have again: "pathlib_mkdir env False exist_ok p s1 = (r, s')"
        using "1.prems" o True up
        by (subst (asm) pathlib_mkdir.simps) simp
      show ?thesis
        using "1.IH"(2) [OF o [symmetric] _ _ _ _ up [symmetric] Inr again] True by simp
    qed
  qed
qed


lemma pathlib_mkdir_within:
  assumes "pathlib_mkdir env parents exist_ok p s = (r, s')" and "up_to k s" and "3 \<le> k"
  shows "up_to k s'"
proof -
  have "up_to k s \<longrightarrow> up_to k s'"
    using assms(1)
  proof (rule pathlib_mkdir_rule)
    fix q s1 r1 s2
    assume "os_mkdir env q s1 = (r1, s2)"
    then have "trace s2 = trace s1 @ [Do (Mkdir q)]"
      by (rule os_mkdir_cases(1))
    then show "up_to k s1 \<longrightarrow> up_to k s2"
      using \<open>3 \<le> k\<close> by (auto simp: up_to_def)
  qed blast
  then show ?thesis
    using assms(2) by simp
qed

lemma pathlib_mkdir_keeps:
  assumes "pathlib_mkdir env parents exist_ok p s = (r, s')" and "files s q \<noteq> None"
  shows "files s' q = files s q"
proof -
  have "\<forall>q. files s q \<noteq> None \<longrightarrow> files s' q = files s q"
    using assms(1)
  proof (rule pathlib_mkdir_rule)
    fix q s1 r1 s2
    assume o: "os_mkdir env q s1 = (r1, s2)"
    show "\<forall>q. files s1 q \<noteq> None \<longrightarrow> files s2 q = files s1 q"
      using os_mkdir_cases(3,4) [OF o] by (cases r1) auto
  qed auto
  then show ?thesis
    using assms(2) by simp
qed

lemma mkdir_each_within:
  "mkdir_each env ds s = (r, s') \<Longrightarrow> up_to k s \<Longrightarrow> 3 \<le> k \<Longrightarrow> up_to k s'"
proof (induction ds arbitrary: s)
  case Nil
  then show ?case by simp
next
  case (Cons d ds)
  then show ?case
    by (auto split: prod.splits sum.splits dest: pathlib_mkdir_within)
qed

lemma mkdir_each_keeps:
  "mkdir_each env ds s = (r, s') \<Longrightarrow> files s q \<noteq> None \<Longrightarrow> files s' q = files s q"
proof (induction ds arbitrary: s)
  case Nil
  then show ?case by simp
next
  case (Cons d ds)
  obtain r0 s0 where m: "pathlib_mkdir env True True d s = (r0, s0)"
    by fastforce
  have k: "files s0 q = files s q"
    using m Cons.prems(2) by (rule pathlib_mkdir_keeps)
  show ?case
  proof (cases r0)
    case (Inl x)
    then show ?thesis
      using Cons.prems m k by simp
  next
    case (Inr u)
    then have "mkdir_each env ds s0 = (r, s')"
      using Cons.prems m by simp
    then have "files s' q = files s0 q"
      using Cons.prems(2) k by (intro Cons.IH) simp_all
    then show ?thesis
      using k by simp
  qed
qed

lemma mkdir_each_result:
  "mkdir_each env ds s = (r, s') \<Longrightarrow>
     (r = Inr () \<and> (\<forall>d \<in> set ds. is_dir (files s') d)) \<or>
     (\<exists>e q. r = Inl (Raised e) \<and> is_OSError e \<and> last (trace s') = Do (Mkdir q))"
proof (induction ds arbitrary: s)
  case Nil
  then show ?case by simp
next
  case (Cons d ds)
  obtain r0 s0 where m: "pathlib_mkdir env True True d s = (r0, s0)"
    by fastforce
  show ?case
  proof (cases r0)
    case (Inl x)
    then show ?thesis
      using Cons.prems m pathlib_mkdir_result [OF m] by auto
  next
    case (Inr u)
    then have rest: "mkdir_each env ds s0 = (r, s')"
      using Cons.prems m by simp
    have "is_dir (files s0) d"
      using pathlib_mkdir_result [OF m] Inr by auto
    then have "r = Inr () \<Longrightarrow> is_dir (files s') d"
      using mkdir_each_keeps [OF rest, of d] by (simp add: is_dir_def)
    then show ?thesis
      using Cons.IH [OF rest] by auto
  qed
qed

lemma setup_directories_result:
  assumes "setup_directories env t s = (r, s')"
  shows "(r = Inr () \<and> (\<forall>d \<in> set (required_dirs t). is_dir (files s') d)
            \<and> last (trace s') = Print DirsCreated) \<or>
         (\<exists>e q. r = Inl (Raised e) \<and> is_OSError e \<and> last (trace s') = Do (Mkdir q))"
proof -
  obtain r0 s0 where m: "mkdir_each env (required_dirs t) s = (r0, s0)"
    by fastforce
  show ?thesis
    using assms m mkdir_each_result [OF m]
    by (auto simp: setup_directories_def)
qed

lemma setup_directories_within:
  assumes "setup_directories env t s = (r, s')" and "up_to k s" and "3 \<le> k"
  shows "up_to k s'"
proof -
  obtain r0 s0 where m: "mkdir_each env (required_dirs t) s = (r0, s0)"
    by fastforce
  show ?thesis
    using assms m mkdir_each_within [OF m assms(2,3)]
    by (auto simp: setup_directories_def split: sum.splits)
qed

lemma setup_directories_keeps:
  assumes "setup_directories env t s = (r, s')" and "files s q \<noteq> None"
  shows "files s' q = files s q"
proof -
  obtain r0 s0 where m: "mkdir_each env (required_dirs t) s = (r0, s0)"
    by fastforce
  show ?thesis
    using assms m mkdir_each_keeps [OF m assms(2)]
    by (auto simp: setup_directories_def split: sum.splits)
qed


subsection \<open>The configuration file\<close>

lemma shutil_copy_cases:
  assumes "shutil_copy env src dst s = (r, s')"
  shows "trace s' = trace s @ [Do (CopyFile src dst)]"
    and "r \<noteq> Inl (SystemExit n)"
    and "r = Inl x \<Longrightarrow> files s' = files s"
    and "r = Inr u \<Longrightarrow> files s dst = None \<Longrightarrow>
           (\<exists>c. files s src = Some (File c) \<and> files s' = (files s)(dst \<mapsto> File c))"
  using assms
  by (auto simp: shutil_copy_def Let_def is_dir_def split: option.splits node.splits if_splits)

lemma create_config_result:
  assumes "create_config env t s = (r, s')"
  shows "r = Inr () \<or>
         (\<exists>e. r = Inl (Raised e) \<and>
              last (trace s') = Do (CopyFile (child t ''config.example.py'') (child t ''config.py'')))"
proof -
  obtain r0 s0 where c: "shutil_copy env (child t ''config.example.py'') (child t ''config.py'') s = (r0, s0)"
    by fastforce
  show ?thesis
  proof (cases r0)
    case (Inl x)
    then show ?thesis
      using assms c shutil_copy_cases(1,2) [OF c]
      by (cases x) (auto simp: create_config_def Let_def split: if_splits)
  next
    case (Inr u)
    then show ?thesis
      using assms c by (auto simp: create_config_def Let_def split: if_splits)
  qed
qed

lemma create_config_within:
  assumes "create_config env t s = (r, s')" and "up_to k s" and "4 \<le> k"
  shows "up_to k s'"
proof -
  obtain r0 s0 where c: "shutil_copy env (child t ''config.example.py'') (child t ''config.py'') s = (r0, s0)"
    by fastforce
  have "up_to k s0"
    using shutil_copy_cases(1) [OF c] assms(2,3) by (auto simp: up_to_def)
  then show ?thesis
    using assms c by (auto simp: create_config_def Let_def split: if_splits sum.splits)
qed

lemma create_config_keeps:
  assumes "create_config env t s = (r, s')" and "files s q \<noteq> None"
  shows "files s' q = files s q"
proof -
  obtain r0 s0 where c: "shutil_copy env (child t ''config.example.py'') (child t ''config.py'') s = (r0, s0)"
    by fastforce
  have "files s (child t ''config.py'') = None \<Longrightarrow> files s0 q = files s q"
    using shutil_copy_cases(3,4) [OF c] assms(2) by (cases r0) auto
  then show ?thesis
    using assms c
    by (auto simp: create_config_def Let_def path_exists_def split: if_splits sum.splits)
qed

subsection \<open>Dependencies, probe, smoke test, daemon\<close>

lemma install_dependencies_result:
  assumes "install_dependencies env t s = (r, s')"
  shows "(\<exists>b. r = Inr b) \<or>
         (\<exists>e. r = Inl (Raised e) \<and> e \<noteq> CalledProcessError \<and>
              last (trace s') = Do (PipInstall (child t ''requirements.txt'')))"
  using assms
  by (auto simp: install_dependencies_def Let_def subprocess_run_def
           split: if_splits prod.splits sum.splits stop.splits run_result.splits)

lemma install_dependencies_within:
  assumes "install_dependencies env t s = (r, s')" and "up_to k s" and "5 \<le> k"
  shows "up_to k s'"
  using assms
  by (auto simp: install_dependencies_def Let_def subprocess_run_def
           split: if_splits prod.splits sum.splits stop.splits run_result.splits)

lemma install_dependencies_files:
  assumes "install_dependencies env t s = (r, s')"
  shows "files s' = files s \<or>
         files s' = snd (pip_install env (child t ''requirements.txt'') (files s))"
  using assms
  by (auto simp: install_dependencies_def Let_def subprocess_run_def
           split: if_splits prod.splits sum.splits stop.splits run_result.splits)

lemma check_ollama_result:
  assumes "check_ollama env s = (r, s')"
  shows "\<exists>b. r = Inr b" and "files s' = files s" and "up_to k s \<Longrightarrow> 6 \<le> k \<Longrightarrow> up_to k s'"
  using assms by (auto simp: check_ollama_def Let_def split: sum.splits if_splits)

lemma test_install_result:
  assumes "test_install env t s = (r, s')"
  shows "\<exists>b. r = Inr b" and "files s' = snd (run_me env t (files s))"
    and "up_to k s \<Longrightarrow> 7 \<le> k \<Longrightarrow> up_to k s'"
  using assms
  by (auto simp: test_install_def Let_def subprocess_run_def
           split: if_splits prod.splits sum.splits stop.splits run_result.splits)

lemma start_daemon_result:
  assumes "start_daemon env t s = (r, s')"
  shows "(\<exists>b. r = Inr b) \<or>
         (\<exists>e. r = Inl (Raised e) \<and>
              (last (trace s') = Do (PopenWindow (child t ''daemon.py'')) \<or>
               last (trace s') = Do (PopenBackground (child t ''daemon.py''))))"
    and "files s' = files s"
  using assms
  by (auto simp: start_daemon_def Let_def spawn_def split: if_splits option.splits)

subsection \<open>Getting the code\<close>

lemma clone_repo_result:
  assumes "clone_repo env t s = (r, s')"
  shows "(\<exists>b. r = Inr b) \<or>
         (\<exists>e. r = Inl (Raised e) \<and> e \<noteq> CalledProcessError \<and> last (trace s') = Do (GitClone t))"
    and "up_to k s \<Longrightarrow> 2 \<le> k \<Longrightarrow> up_to k s'"
    and "r = Inr False \<Longrightarrow> clone_fails env t (files s)"
  using assms
  by (auto simp: clone_repo_def Let_def subprocess_run_def clone_fails_def
           split: if_splits prod.splits sum.splits stop.splits run_result.splits)

lemma shutil_rmtree_cases:
  assumes "shutil_rmtree env p s = (r, s')"
  shows "trace s' = trace s @ [Do (Rmtree p)]" and "r \<noteq> Inl (SystemExit n)"
  using assms
  by (auto simp: shutil_rmtree_def Let_def split: option.splits node.splits if_splits)

lemma path_rename_cases:
  assumes "path_rename env src dst s = (r, s')"
  shows "trace s' = trace s @ [Do (Rename src dst)]" and "r \<noteq> Inl (SystemExit n)"
  using assms
  by (auto simp: path_rename_def Let_def split: option.splits node.splits if_splits)

lemma urlopen_zip_cases:
  assumes "urlopen_zip env s = (r, s')"
  shows "s' = called UrlopenZip s" and "r \<noteq> Inl (SystemExit n)"
  using assms by (auto simp: urlopen_zip_def split: sum.splits)

lemma zip_extractall_cases:
  assumes "zip_extractall env z d s = (r, s')"
  shows "s' = called (ExtractAll d) (s\<lparr>files := snd (extractall env z d (files s))\<rparr>)"
    and "r \<noteq> Inl (SystemExit n)"
  using assms by (auto simp: zip_extractall_def Let_def split: prod.splits option.splits)

lemma download_zip_try_result:
  assumes "download_zip_try env t s = (r, s')"
  shows "r \<noteq> Inl (SystemExit n)" and "up_to k s \<Longrightarrow> 2 \<le> k \<Longrightarrow> up_to k s'"
proof -
  show "r \<noteq> Inl (SystemExit n)"
    using assms
    by (auto simp: download_zip_try_def Let_def elim!: then_doE split: if_splits
             dest: urlopen_zip_cases(2) zip_extractall_cases(2) shutil_rmtree_cases(2)
                   path_rename_cases(2))
  show "up_to k s'" if "up_to k s" "2 \<le> k"
    using assms that
    by (auto simp: download_zip_try_def Let_def elim!: then_doE split: if_splits
             dest!: urlopen_zip_cases(1) zip_extractall_cases(1) shutil_rmtree_cases(1)
                   path_rename_cases(1))
       (auto simp: up_to_def)
qed

lemma download_zip_result:
  assumes "download_zip env t s = (r, s')"
  shows "\<exists>b. r = Inr b"
    and "up_to k s \<Longrightarrow> 2 \<le> k \<Longrightarrow> up_to k s'"
    and "r = Inr False \<Longrightarrow> \<exists>e. last (trace s') = Print (DownloadFailed e)"
proof -
  obtain r0 s0 where d: "download_zip_try env t (say Downloading s) = (r0, s0)"
    by fastforce
  note facts = download_zip_try_result [OF d]
  show "\<exists>b. r = Inr b"
    using assms d facts(1) by (auto simp: download_zip_def split: sum.splits stop.splits)
  show "up_to k s'" if "up_to k s" "2 \<le> k"
    using assms d facts(2) [of k] that
    by (auto simp: download_zip_def split: sum.splits stop.splits)
  show "\<exists>e. last (trace s') = Print (DownloadFailed e)" if "r = Inr False"
    using assms d that
    by (auto simp: download_zip_def download_zip_try_def Let_def elim!: then_doE
             split: sum.splits stop.splits if_splits)
qed


lemma yields_pair [simp]: "yields (r, s) Q = Q r s"
  by (simp add: yields_def)

lemma yields_then_do [simp]:
  "yields (then_do m f s) Q =
     yields (m s) (\<lambda>r s'. case r of Inl x \<Rightarrow> Q (Inl x) s' | Inr v \<Rightarrow> yields (f v s') Q)"
  by (simp add: yields_def then_do_def split: prod.splits sum.splits)

lemma yieldsI: "(\<And>r s'. x = (r, s') \<Longrightarrow> Q r s') \<Longrightarrow> yields x Q"
  by (cases x) (simp add: yields_def)

lemma clone_repo_yields:
  assumes "\<And>r s'. \<lbrakk>\<forall>k. up_to k s \<longrightarrow> 2 \<le> k \<longrightarrow> up_to k s'; \<forall>n. r \<noteq> Inl (SystemExit n);
             \<forall>e. r = Inl (Raised e) \<longrightarrow> e \<noteq> CalledProcessError \<and> last (trace s') = Do (GitClone t);
             r = Inr False \<longrightarrow> clone_fails env t (files s)\<rbrakk>
           \<Longrightarrow> Q r s'"
  shows "yields (clone_repo env t s) Q"
proof (rule yieldsI)
  fix r s' assume run: "clone_repo env t s = (r, s')"
  show "Q r s'"
    using clone_repo_result [OF run] by (intro assms) auto
qed

lemma download_zip_yields:
  assumes "\<And>r s'. \<lbrakk>\<forall>k. up_to k s \<longrightarrow> 2 \<le> k \<longrightarrow> up_to k s'; \<exists>b. r = Inr b;
             r = Inr False \<longrightarrow> (\<exists>e. last (trace s') = Print (DownloadFailed e))\<rbrakk>
           \<Longrightarrow> Q r s'"
  shows "yields (download_zip env t s) Q"
proof (rule yieldsI)
  fix r s' assume run: "download_zip env t s = (r, s')"
  show "Q r s'"
    using download_zip_result [OF run] by (intro assms) auto
qed

lemma get_the_code_spec:
  "yields (get_the_code env t s) (\<lambda>r s'.
     (\<forall>k. up_to k s \<longrightarrow> 2 \<le> k \<longrightarrow> up_to k s') \<and>
     (\<forall>n. r = Inl (SystemExit n) \<longrightarrow> n = 1
         \<and> \<not> installed (files s) t
         \<and> (git_missing env \<or> clone_fails env t (files s))
         \<and> (\<exists>e. last (trace s') = Print (DownloadFailed e))) \<and>
     (\<forall>e. r = Inl (Raised e) \<longrightarrow> (\<exists>a. last (trace s') = Do a \<and> unhandled t e a)))"
  unfolding get_the_code_def
  by (auto simp: check_git_eq subprocess_run_def Let_def git_missing_def
           split: run_result.splits prod.splits sum.splits stop.splits
           intro!: clone_repo_yields download_zip_yields)

lemma up_to_empty: "trace s = [] \<Longrightarrow> up_to k s"
  by (simp add: up_to_def)

lemma setup_directories_yields:
  assumes "\<And>r s'. \<lbrakk>\<forall>k. up_to k s \<longrightarrow> 3 \<le> k \<longrightarrow> up_to k s';
             \<forall>q. files s q \<noteq> None \<longrightarrow> files s' q = files s q;
             (r = Inr () \<and> (\<forall>d \<in> set (required_dirs t). is_dir (files s') d)
                \<and> last (trace s') = Print DirsCreated) \<or>
             (\<exists>e q. r = Inl (Raised e) \<and> last (trace s') = Do (Mkdir q))\<rbrakk>
           \<Longrightarrow> Q r s'"
  shows "yields (setup_directories env t s) Q"
proof (rule yieldsI)
  fix r s' assume run: "setup_directories env t s = (r, s')"
  show "Q r s'"
    using setup_directories_result [OF run] setup_directories_within [OF run]
      setup_directories_keeps [OF run]
    by (intro assms) auto
qed

lemma create_config_yields:
  assumes "\<And>r s'. \<lbrakk>\<forall>k. up_to k s \<longrightarrow> 4 \<le> k \<longrightarrow> up_to k s';
             \<forall>q. files s q \<noteq> None \<longrightarrow> files s' q = files s q;
             r = Inr () \<or>
             (\<exists>e. r = Inl (Raised e) \<and>
                last (trace s') = Do (CopyFile (child t ''config.example.py'') (child t ''config.py'')))\<rbrakk>
           \<Longrightarrow> Q r s'"
  shows "yields (create_config env t s) Q"
proof (rule yieldsI)
  fix r s' assume run: "create_config env t s = (r, s')"
  show "Q r s'"
    using create_config_result [OF run] create_config_within [OF run]
      create_config_keeps [OF run]
    by (intro assms) auto
qed

lemma install_dependencies_yields:
  assumes "\<And>r s'. \<lbrakk>\<forall>k. up_to k s \<longrightarrow> 5 \<le> k \<longrightarrow> up_to k s';
             files s' = files s \<or>
               files s' = snd (pip_install env (child t ''requirements.txt'') (files s));
             (\<exists>b. r = Inr b) \<or>
             (\<exists>e. r = Inl (Raised e) \<and> e \<noteq> CalledProcessError \<and>
                last (trace s') = Do (PipInstall (child t ''requirements.txt'')))\<rbrakk>
           \<Longrightarrow> Q r s'"
  shows "yields (install_dependencies env t s) Q"
proof (rule yieldsI)
  fix r s' assume run: "install_dependencies env t s = (r, s')"
  show "Q r s'"
    using install_dependencies_result [OF run] install_dependencies_within [OF run]
      install_dependencies_files [OF run]
    by (intro assms) auto
qed

lemma check_ollama_yields:
  assumes "\<And>b s'. \<lbrakk>\<forall>k. up_to k s \<longrightarrow> 6 \<le> k \<longrightarrow> up_to k s'; files s' = files s\<rbrakk>
           \<Longrightarrow> Q (Inr b) s'"
  shows "yields (check_ollama env s) Q"
proof (rule yieldsI)
  fix r s' assume run: "check_ollama env s = (r, s')"
  show "Q r s'"
    using check_ollama_result [OF run] assms by auto
qed

lemma test_install_yields:
  assumes "\<And>b s'. files s' = snd (run_me env t (files s)) \<Longrightarrow> Q (Inr b) s'"
  shows "yields (test_install env t s) Q"
proof (rule yieldsI)
  fix r s' assume run: "test_install env t s = (r, s')"
  show "Q r s'"
    using test_install_result(1,2) [OF run] assms by auto
qed

lemma start_daemon_yields:
  assumes "\<And>r s'. \<lbrakk>files s' = files s;
             (\<exists>b. r = Inr b) \<or> (\<exists>e. r = Inl (Raised e) \<and> popen_last t s')\<rbrakk>
           \<Longrightarrow> Q r s'"
  shows "yields (start_daemon env t s) Q"
proof (rule yieldsI)
  fix r s' assume run: "start_daemon env t s = (r, s')"
  show "Q r s'"
    using start_daemon_result [OF run] by (intro assms) (auto simp: popen_last_def)
qed

lemmas step_rules =
  clone_repo_yields download_zip_yields setup_directories_yields create_config_yields
  install_dependencies_yields check_ollama_yields test_install_yields start_daemon_yields

lemma unhandled_popen:
  "popen_last t s \<Longrightarrow> \<exists>a. last (trace s) = Do a \<and> unhandled t e a"
  by (auto simp: popen_last_def)

lemma testing_absent: "up_to 6 s \<Longrightarrow> Print Testing \<notin> set (trace s)"
  by (auto simp: up_to_def)

lemma set_up_spec:
  "yields (set_up env a t s) (\<lambda>r s'.
     (\<forall>n. r \<noteq> Inl (SystemExit n)) \<and>
     (r = Inr () \<longrightarrow> last (trace s') = Print (Summary t)) \<and>
     (\<forall>e. r = Inl (Raised e) \<longrightarrow> (\<exists>a. last (trace s') = Do a \<and> unhandled t e a)) \<and>
     (up_to 6 s \<longrightarrow> Print Testing \<in> set (trace s') \<longrightarrow>
        r = Inr () \<or> (start a \<and> (\<exists>e. r = Inl (Raised e)) \<and> popen_last t s')))"
  unfolding set_up_def
  by (auto simp: testing_absent unhandled_popen split: sum.splits stop.splits intro!: step_rules)


lemma yields_mono: "yields x P \<Longrightarrow> (\<And>r s'. P r s' \<Longrightarrow> Q r s') \<Longrightarrow> yields x Q"
  by (simp add: yields_def)

lemmas get_the_code_yields = yields_mono [OF get_the_code_spec]
lemmas set_up_yields = yields_mono [OF set_up_spec]

lemma mkdir_absent: "up_to 2 s \<Longrightarrow> Do (Mkdir p) \<notin> set (trace s)"
  by (auto simp: up_to_def)

lemma main_spec:
  assumes "version_info env = (major, minor, micro)"
  shows "yields (main env a s) (\<lambda>r s'.
     (\<forall>n. r = Inl (SystemExit n) \<longrightarrow>
        n = 1 \<and>
        (if major < 3 \<or> (major = 3 \<and> minor < 10)
         then last (trace s') = Print (PythonTooOld major minor)
         else \<not> installed (files s) (dir a)
              \<and> (git_missing env \<or> clone_fails env (dir a) (files s))
              \<and> (\<exists>e. last (trace s') = Print (DownloadFailed e)))) \<and>
     (r = Inr () \<longrightarrow> last (trace s') = Print (Summary (dir a))) \<and>
     (\<forall>e. r = Inl (Raised e) \<longrightarrow> (\<exists>act. last (trace s') = Do act \<and> unhandled (dir a) e act)) \<and>
     (trace s = [] \<longrightarrow>
        (\<forall>n. r = Inl (SystemExit n) \<longrightarrow> (\<forall>p. Do (Mkdir p) \<notin> set (trace s'))) \<and>
        (Print Testing \<in> set (trace s') \<longrightarrow>
           r = Inr () \<or> (start a \<and> (\<exists>e. r = Inl (Raised e)) \<and> popen_last (dir a) s'))))"
  unfolding main_def
  using assms
  by (auto simp: check_python_def print_banner_def Let_def up_to_empty mkdir_absent testing_absent
           split: sum.splits stop.splits
           intro!: get_the_code_yields set_up_yields)



subsection \<open>Whole runs\<close>

lemmas run_defs =
  main_def then_do_def check_python_def print_banner_def say_def called_def
  get_the_code_def installed_def path_exists_def child_def check_git_def subprocess_run_def
  clone_repo_def download_zip_def download_zip_try_def urlopen_zip_def zip_extractall_def
  shutil_rmtree_def path_rename_def set_up_def setup_directories_def required_dirs_def
  pathlib_mkdir.simps os_mkdir_def parent_def is_dir_def create_config_def shutil_copy_def
  install_dependencies_def check_ollama_def test_install_def sublist_code start_daemon_def
  spawn_def Let_def host_def plain_args_def home_def claude_agent_def checkout_def ready_def



section \<open>The claims\<close>

text \<open>
  Claim C6. The environment check compares the interpreter's version with 3.10 on major
  and minor. Below it, \<open>main\<close> prints the banner and the error and exits with status 1,
  with no other call and no change of the filesystem; from 3.10 on it goes on to get the
  code.
\<close>

theorem check_python_minimum:
  assumes "version_info env = (major, minor, micro)"
  shows "if (major, minor) < (3, 10)
         then main env a s = (Inl (SystemExit 1), say (PythonTooOld major minor) (say Banner s))
              \<and> exit_status (fst (main env a s)) = 1
         else main env a s =
                then_do (get_the_code env (dir a)) (\<lambda>u. set_up env a (dir a))
                  (say (InstallingTo (dir a)) (say (PythonOK major minor micro) (say Banner s)))"
  using assms
  by (auto simp: main_def then_do_def check_python_def print_banner_def Let_def)

text \<open>Python 3.9.18 on the example host: exit 1 after two lines of output.\<close>

theorem check_python_minimum_witness:
  "main (host\<lparr>version_info := (3, 9, 18)\<rparr>) plain_args \<lparr>files = home, trace = []\<rparr> =
     (Inl (SystemExit 1), \<lparr>files = home, trace = [Print Banner, Print (PythonTooOld 3 9)]\<rparr>)"
  using check_python_minimum [of "host\<lparr>version_info := (3, 9, 18)\<rparr>" 3 9 18 plain_args
      "\<lparr>files = home, trace = []\<rparr>"]
  by (simp add: say_def)

text \<open>
  Claim C2. When \<open>config.py\<close> exists in the target directory, \<open>create_config\<close> prints
  that it exists and leaves the whole filesystem as it is, whatever the template holds.
  Whenever the step changes the filesystem at all, \<open>config.py\<close> did not exist before and
  the change is the copy of the template file to it.
\<close>

theorem create_config_never_overwrites:
  "(path_exists (files s) (child t ''config.py'') \<longrightarrow>
      create_config env t s = (Inr (), say ConfigExists s))
   \<and> (create_config env t s = (r, s') \<longrightarrow> files s' \<noteq> files s \<longrightarrow>
        \<not> path_exists (files s) (child t ''config.py'') \<and>
        (\<exists>c. files s (child t ''config.example.py'') = Some (File c) \<and>
             files s' = (files s)(child t ''config.py'' \<mapsto> File c)))"
proof (intro conjI impI)
  assume "path_exists (files s) (child t ''config.py'')"
  then show "create_config env t s = (Inr (), say ConfigExists s)"
    by (simp add: create_config_def Let_def)
next
  assume run: "create_config env t s = (r, s')" and changed: "files s' \<noteq> files s"
  obtain r0 s0 where c: "shutil_copy env (child t ''config.example.py'') (child t ''config.py'') s = (r0, s0)"
    by fastforce
  from run changed show absent: "\<not> path_exists (files s) (child t ''config.py'')"
    by (auto simp: create_config_def Let_def split: if_splits)
  from run changed c have "s' = say ConfigCreated s0" and "r0 = Inr ()"
    using shutil_copy_cases(3) [OF c]
    by (auto simp: create_config_def Let_def split: if_splits sum.splits)
  then show "\<exists>c. files s (child t ''config.example.py'') = Some (File c) \<and>
             files s' = (files s)(child t ''config.py'' \<mapsto> File c)"
    using shutil_copy_cases(4) [OF c] absent by (simp add: path_exists_def)
qed

text \<open>An edited \<open>config.py\<close> beside a template with another content stays as it is.\<close>

theorem create_config_never_overwrites_witness:
  "create_config host claude_agent
     \<lparr>files = ready(child claude_agent ''config.py'' \<mapsto> File ''VOICE = 2''), trace = []\<rparr> =
   (Inr (), \<lparr>files = ready(child claude_agent ''config.py'' \<mapsto> File ''VOICE = 2''),
             trace = [Print ConfigExists]\<rparr>)"
  using create_config_never_overwrites [of
      "\<lparr>files = ready(child claude_agent ''config.py'' \<mapsto> File ''VOICE = 2''), trace = []\<rparr>"
      claude_agent host]
  by (simp add: path_exists_def say_def)



text \<open>
  Claim C9. When the download and the extraction raise nothing and the folder
  \<open>claude-agent-main\<close> is not there afterwards, \<open>download_zip\<close> prints its three lines,
  ending with the success line, calls neither \<open>rmtree\<close> nor \<open>rename\<close>, leaves the
  filesystem as the extraction left it and returns \<open>True\<close>, so that the caller does not
  exit. And whenever \<open>download_zip\<close> calls \<open>rmtree\<close>, it is on the target directory,
  after an extraction that raised nothing and left both the extracted folder and the
  target directory in place.
\<close>

theorem download_zip_reports_success_without_folder:
  "(read_zip env = Inr z \<longrightarrow> extractall env z (parent t) (files s) = (None, f') \<longrightarrow>
      \<not> path_exists f' (child (parent t) ''claude-agent-main'') \<longrightarrow>
        download_zip env t s =
          (Inr True,
           \<lparr>files = f',
            trace = trace s @ [Print Downloading, Do UrlopenZip, Print Extracting,
                               Do (ExtractAll (parent t)), Print Downloaded]\<rparr>)
        \<and> fst (then_do (download_zip env t)
                 (\<lambda>downloaded s3. if \<not> downloaded then (Inl (SystemExit 1), s3) else (Inr (), s3)) s)
            = Inr ())
   \<and> (download_zip env t s = (r, s') \<longrightarrow> Do (Rmtree p) \<in> set (trace s') \<longrightarrow>
        Do (Rmtree p) \<notin> set (trace s) \<longrightarrow>
          p = t \<and>
          (\<exists>z. read_zip env = Inr z \<and> fst (extractall env z (parent t) (files s)) = None \<and>
               path_exists (snd (extractall env z (parent t) (files s)))
                 (child (parent t) ''claude-agent-main'') \<and>
               path_exists (snd (extractall env z (parent t) (files s))) t))"
proof (intro conjI impI)
  assume a: "read_zip env = Inr z" "extractall env z (parent t) (files s) = (None, f')"
    "\<not> path_exists f' (child (parent t) ''claude-agent-main'')"
  then have run: "download_zip env t s =
          (Inr True,
           \<lparr>files = f',
            trace = trace s @ [Print Downloading, Do UrlopenZip, Print Extracting,
                               Do (ExtractAll (parent t)), Print Downloaded]\<rparr>)"
    by (simp add: download_zip_def download_zip_try_def then_do_def urlopen_zip_def
          zip_extractall_def Let_def say_def called_def)
  then show "download_zip env t s =
          (Inr True,
           \<lparr>files = f',
            trace = trace s @ [Print Downloading, Do UrlopenZip, Print Extracting,
                               Do (ExtractAll (parent t)), Print Downloaded]\<rparr>)" .
  from run show "fst (then_do (download_zip env t)
                 (\<lambda>downloaded s3. if \<not> downloaded then (Inl (SystemExit 1), s3) else (Inr (), s3)) s)
            = Inr ()"
    by (simp add: then_do_def)
next
  assume run: "download_zip env t s = (r, s')"
    and "Do (Rmtree p) \<in> set (trace s')" "Do (Rmtree p) \<notin> set (trace s)"
  then show "p = t"
    by (auto simp: download_zip_def download_zip_try_def then_do_def urlopen_zip_def
          zip_extractall_def shutil_rmtree_def path_rename_def Let_def
          split: sum.splits prod.splits option.splits node.splits if_splits stop.splits)
  from run \<open>Do (Rmtree p) \<in> set (trace s')\<close> \<open>Do (Rmtree p) \<notin> set (trace s)\<close>
  show "\<exists>z. read_zip env = Inr z \<and> fst (extractall env z (parent t) (files s)) = None \<and>
               path_exists (snd (extractall env z (parent t) (files s)))
                 (child (parent t) ''claude-agent-main'') \<and>
               path_exists (snd (extractall env z (parent t) (files s))) t"
    by (auto simp: download_zip_def download_zip_try_def then_do_def urlopen_zip_def
          zip_extractall_def shutil_rmtree_def path_rename_def Let_def
          split: sum.splits prod.splits option.splits node.splits if_splits stop.splits)
qed

text \<open>
  An archive whose top folder has another name: the download counts as done and the
  target directory is still missing.
\<close>

theorem download_zip_reports_success_without_folder_witness:
  "fst (download_zip
          (host\<lparr>read_zip := Inr ''PK'',
                extractall := (\<lambda>z d f. (None, f(child d ''claude-agent-2-main'' \<mapsto> Dir)))\<rparr>)
          claude_agent \<lparr>files = home, trace = []\<rparr>) = Inr True
   \<and> files (snd (download_zip
          (host\<lparr>read_zip := Inr ''PK'',
                extractall := (\<lambda>z d f. (None, f(child d ''claude-agent-2-main'' \<mapsto> Dir)))\<rparr>)
          claude_agent \<lparr>files = home, trace = []\<rparr>)) claude_agent = None"
  using download_zip_reports_success_without_folder [of
      "host\<lparr>read_zip := Inr ''PK'',
            extractall := (\<lambda>z d f. (None, f(child d ''claude-agent-2-main'' \<mapsto> Dir)))\<rparr>"
      "''PK''" claude_agent "\<lparr>files = home, trace = []\<rparr>"
      "home(child (parent claude_agent) ''claude-agent-2-main'' \<mapsto> Dir)"]
  by (simp add: host_def path_exists_def home_def claude_agent_def child_def parent_def)

text \<open>
  Claim C8. With the installation marker present, when \<open>check_git\<close> answers that git is
  missing, or answers that it is there while \<open>.git\<close> is absent, the block that gets the
  code prints the update line, runs \<open>git --version\<close> and nothing else: no pull, no clone,
  no download, the filesystem untouched. \<open>main\<close> then goes straight into the setup
  steps from that state.
\<close>

theorem marker_without_git_skips_acquisition:
  assumes "installed (files s) (dir a)"
    and "git_missing env \<or> (git_available env \<and> \<not> path_exists (files s) (child (dir a) ''.git''))"
    and "version_info env = (major, minor, micro)"
    and "\<not> (major, minor) < (3, 10)"
  shows "get_the_code env (dir a) s = (Inr (), called GitVersion (say AlreadyInstalled s))
       \<and> main env a s =
           set_up env a (dir a)
             (called GitVersion (say AlreadyInstalled (say (InstallingTo (dir a))
                (say (PythonOK major minor micro) (say Banner s)))))"
proof -
  have code: "get_the_code env (dir a) s0 = (Inr (), called GitVersion (say AlreadyInstalled s0))"
    if "files s0 = files s" for s0
    using assms(1,2) that
    by (auto simp: get_the_code_def then_do_def check_git_eq git_missing_def git_available_def
          split: run_result.splits)
  have "main env a s =
           set_up env a (dir a)
             (called GitVersion (say AlreadyInstalled (say (InstallingTo (dir a))
                (say (PythonOK major minor micro) (say Banner s)))))"
    using assms(3,4) code [of "say (InstallingTo (dir a)) (say (PythonOK major minor micro) (say Banner s))"]
    by (auto simp: main_def then_do_def check_python_def print_banner_def Let_def)
  then show ?thesis
    using code [of s] by simp
qed

text \<open>No git on the host, an installed copy: one call, \<open>git --version\<close>, and no change.\<close>

theorem marker_without_git_skips_acquisition_witness:
  "get_the_code (host\<lparr>git_version := Failed FileNotFoundError\<rparr>) claude_agent
     \<lparr>files = ready, trace = []\<rparr> =
   (Inr (), \<lparr>files = ready, trace = [Print AlreadyInstalled, Do GitVersion]\<rparr>)"
  using marker_without_git_skips_acquisition [of "\<lparr>files = ready, trace = []\<rparr>" plain_args
      "host\<lparr>git_version := Failed FileNotFoundError\<rparr>" 3 11 4]
  by (simp add: host_def plain_args_def installed_def git_missing_def path_exists_def ready_def
        checkout_def say_def called_def)

text \<open>
  Claim C4. When \<open>check_git\<close> answers that git is missing and the installation marker is
  absent, what \<open>main\<close> does after the version check is the archive download, with no
  clone attempted; it exits exactly when \<open>download_zip\<close> returns \<open>False\<close>, and otherwise
  goes on with the setup steps.
\<close>

theorem missing_git_falls_back_to_archive:
  assumes "git_missing env"
    and "\<not> installed (files s) (dir a)"
    and "version_info env = (major, minor, micro)"
    and "\<not> (major, minor) < (3, 10)"
  shows "main env a s =
           then_do (download_zip env (dir a))
             (\<lambda>downloaded s'. if downloaded then set_up env a (dir a) s' else (Inl (SystemExit 1), s'))
             (say GitNotFound (called GitVersion (say (InstallingTo (dir a))
                (say (PythonOK major minor micro) (say Banner s)))))
       \<and> ((\<exists>n. fst (main env a s) = Inl (SystemExit n)) \<longleftrightarrow>
            fst (download_zip env (dir a)
                   (say GitNotFound (called GitVersion (say (InstallingTo (dir a))
                      (say (PythonOK major minor micro) (say Banner s)))))) = Inr False)"
proof -
  let ?pre = "say GitNotFound (called GitVersion (say (InstallingTo (dir a))
                (say (PythonOK major minor micro) (say Banner s))))"
  have eq: "main env a s =
           then_do (download_zip env (dir a))
             (\<lambda>downloaded s'. if downloaded then set_up env a (dir a) s' else (Inl (SystemExit 1), s'))
             ?pre"
    using assms
    by (auto simp: main_def get_the_code_def then_do_def check_python_def print_banner_def
          Let_def check_git_eq git_missing_def
          split: run_result.splits prod.splits sum.splits)
  obtain d sd where dl: "download_zip env (dir a) ?pre = (d, sd)"
    by fastforce
  obtain b where b: "d = Inr b"
    using download_zip_result(1) [OF dl] by blast
  have "(\<exists>n. fst (main env a s) = Inl (SystemExit n)) \<longleftrightarrow> \<not> b"
  proof (cases b)
    case True
    have "\<forall>n. fst (set_up env a (dir a) sd) \<noteq> Inl (SystemExit n)"
      using set_up_spec [of env a "dir a" sd] by (simp add: yields_def)
    then show ?thesis
      using True eq dl b by (simp add: then_do_def)
  next
    case False
    then show ?thesis
      using eq dl b by (simp add: then_do_def)
  qed
  then show ?thesis
    using eq dl b by simp
qed

text \<open>
  No git, no installed copy, and an archive that unpacks to \<open>claude-agent-main\<close>: the
  run does not exit.
\<close>

theorem missing_git_falls_back_to_archive_witness:
  "fst (main
          (host\<lparr>git_version := Failed FileNotFoundError, read_zip := Inr ''PK'',
                extractall := (\<lambda>z d f. (None, checkout (child d ''claude-agent-main'') f))\<rparr>)
          plain_args \<lparr>files = home, trace = []\<rparr>) \<noteq> Inl (SystemExit 1)"
proof -
  let ?env = "host\<lparr>git_version := Failed FileNotFoundError, read_zip := Inr ''PK'',
                extractall := (\<lambda>z d f. (None, checkout (child d ''claude-agent-main'') f))\<rparr>"
  have "fst (download_zip ?env (dir plain_args)
          (say GitNotFound (called GitVersion (say (InstallingTo (dir plain_args))
             (say (PythonOK 3 11 4) (say Banner \<lparr>files = home, trace = []\<rparr>)))))) = Inr True"
    by (simp add: download_zip_def download_zip_try_def then_do_def urlopen_zip_def
          zip_extractall_def shutil_rmtree_def path_rename_def Let_def say_def called_def
          host_def plain_args_def path_exists_def home_def claude_agent_def child_def parent_def
          checkout_def)
  then show ?thesis
    using missing_git_falls_back_to_archive [of ?env "\<lparr>files = home, trace = []\<rparr>" plain_args 3 11 4]
    by (auto simp: host_def git_missing_def installed_def path_exists_def home_def plain_args_def
          claude_agent_def)
qed

text \<open>
  Claim C7. \<open>test_install\<close> never raises and never exits. Its last line is the pass
  line exactly when the entry-point script ran to an end and either its output contains
  \<open>SYSTEM TEST\<close> or its return code is zero; in every other case, a timeout or another
  exception of the call included, its last line is one of the two warnings. In a run of
  \<open>main\<close> that has reached the smoke test, \<open>main\<close> returns after the summary, unless
  \<open>--start\<close> was given and spawning the daemon raises.
\<close>

theorem smoke_test_lenient_and_never_fatal:
  "(\<exists>b. fst (test_install env t s) = Inr b)
   \<and> (last (trace (snd (test_install env t s))) = Print TestPassed \<longleftrightarrow>
        (\<exists>rc out. fst (run_me env t (files s)) = Exited rc out \<and>
                  (sublist ''SYSTEM TEST'' out \<or> rc = 0)))
   \<and> (last (trace (snd (test_install env t s))) \<noteq> Print TestPassed \<longrightarrow>
        (\<exists>w. last (trace (snd (test_install env t s))) = Print (TestOutput w)) \<or>
        (\<exists>e. last (trace (snd (test_install env t s))) = Print (TestFailed e)))
   \<and> (main env a \<lparr>files = f, trace = []\<rparr> = (r, s') \<longrightarrow> Print Testing \<in> set (trace s') \<longrightarrow>
        (r = Inr () \<and> last (trace s') = Print (Summary (dir a))) \<or>
        (start a \<and> (\<exists>e. r = Inl (Raised e)) \<and> popen_last (dir a) s'))"
proof (intro conjI impI)
  show "\<exists>b. fst (test_install env t s) = Inr b"
    using test_install_result(1) [of env t s] by (cases "test_install env t s") auto
  show "last (trace (snd (test_install env t s))) = Print TestPassed \<longleftrightarrow>
        (\<exists>rc out. fst (run_me env t (files s)) = Exited rc out \<and>
                  (sublist ''SYSTEM TEST'' out \<or> rc = 0))"
    by (auto simp: test_install_def subprocess_run_def Let_def
             split: prod.splits run_result.splits)
  show "(\<exists>w. last (trace (snd (test_install env t s))) = Print (TestOutput w)) \<or>
        (\<exists>e. last (trace (snd (test_install env t s))) = Print (TestFailed e))"
    if "last (trace (snd (test_install env t s))) \<noteq> Print TestPassed"
    using that
    by (auto simp: test_install_def subprocess_run_def Let_def
             split: prod.splits run_result.splits if_splits)
  show "(r = Inr () \<and> last (trace s') = Print (Summary (dir a))) \<or>
        (start a \<and> (\<exists>e. r = Inl (Raised e)) \<and> popen_last (dir a) s')"
    if run: "main env a \<lparr>files = f, trace = []\<rparr> = (r, s')" and t: "Print Testing \<in> set (trace s')"
  proof -
    obtain major minor micro where v: "version_info env = (major, minor, micro)"
      by (cases "version_info env") auto
    show ?thesis
      using main_spec [OF v, of a "\<lparr>files = f, trace = []\<rparr>"] run t
      by (auto simp: yields_def)
  qed
qed

text \<open>
  The entry-point script times out after a fresh clone: a warning, then the summary.
\<close>

theorem smoke_test_lenient_and_never_fatal_witness:
  "fst (main (host\<lparr>run_me := (\<lambda>t f. (Failed TimeoutExpired, f))\<rparr>) plain_args
          \<lparr>files = home, trace = []\<rparr>) = Inr ()
   \<and> last (trace (snd (main (host\<lparr>run_me := (\<lambda>t f. (Failed TimeoutExpired, f))\<rparr>) plain_args
          \<lparr>files = home, trace = []\<rparr>))) = Print (Summary claude_agent)
   \<and> Print (TestFailed TimeoutExpired) \<in>
       set (trace (snd (main (host\<lparr>run_me := (\<lambda>t f. (Failed TimeoutExpired, f))\<rparr>) plain_args
          \<lparr>files = home, trace = []\<rparr>)))"
proof -
  let ?env = "host\<lparr>run_me := (\<lambda>t f. (Failed TimeoutExpired, f))\<rparr>"
  obtain r s' where run: "main ?env plain_args \<lparr>files = home, trace = []\<rparr> = (r, s')"
    by fastforce
  have seen: "Print Testing \<in> set (trace s') \<and> Print (TestFailed TimeoutExpired) \<in> set (trace s')"
    using run by (simp add: run_defs; auto)
  have "r = Inr () \<and> last (trace s') = Print (Summary (dir plain_args))"
    using smoke_test_lenient_and_never_fatal [of ?env _ _ plain_args home r s'] run seen
    by (simp add: plain_args_def)
  then show ?thesis
    unfolding run using seen by (simp add: plain_args_def)
qed









end
